theory Spec2Isabelle
  imports Main "HOL-Library.List_Lexorder"
begin

section \<open>Python values used by main.py\<close>

text \<open>
  A Python \<open>str\<close> is a sequence of Unicode code points, so it is modelled as a list of
  naturals. \<open>ascii\<close> embeds the ASCII literals of the source; the Chinese widget labels
  are written out code point by code point.
\<close>

type_synonym pystr = "nat list"

definition ascii :: "string \<Rightarrow> pystr" where
  "ascii s = map of_char s"

text \<open>The exceptions that the modelled statements can raise.\<close>

datatype pyerror =
    NameError pystr
  | UnboundLocalError pystr
  | KeyError pystr
  | ValueError pystr
  | TypeError
  | AttributeError pystr
  | DatabaseError pystr
  | OperationalError pystr

text \<open>Sequencing of statements that may raise: the first exception ends the sequence.\<close>

definition and_then :: "pyerror + 'a \<Rightarrow> ('a \<Rightarrow> pyerror + 'b) \<Rightarrow> pyerror + 'b" where
  "and_then m f = (case m of Inl e \<Rightarrow> Inl e | Inr a \<Rightarrow> f a)"

section \<open>The module namespace\<close>

text \<open>
  What a name is bound to once the module body of main.py has run. Only the string
  constant carries a value that the functions below read; imports, functions and
  classes are recorded by kind.
\<close>

datatype binding = Module | Callable | Class | Instance | StrConst pystr

definition QCODES_DB_PATH :: pystr where
  "QCODES_DB_PATH =
     ascii ''/Users/albert-mac/Code/GitHub/QCoDeSStreamlit/020-1Shankar_2024-09-15_01.db''"

text \<open>
  Every name bound at module level, in the order of its first binding
  (\<open>load_by_id\<close> and \<open>px\<close> are imported twice). The name \<open>DB_PATH\<close> that
  \<open>fetch_live_data\<close> reads is bound nowhere.
\<close>

definition module_globals :: "(pystr \<times> binding) list" where
  "module_globals =
     [(ascii ''st'', Module), (ascii ''pd'', Module), (ascii ''px'', Module),
      (ascii ''go'', Module), (ascii ''load_by_id'', Callable),
      (ascii ''sqlite3'', Module), (ascii ''sleep'', Callable),
      (ascii ''initialise_database'', Callable),
      (ascii ''load_or_create_experiment'', Callable),
      (ascii ''qcodes'', Module), (ascii ''pint'', Module),
      (ascii ''ureg'', Instance), (ascii ''SI'', Class),
      (ascii ''QCODES_DB_PATH'', StrConst QCODES_DB_PATH),
      (ascii ''init_database'', Callable), (ascii ''fetch_live_data'', Callable),
      (ascii ''realtime_plotting'', Callable), (ascii ''create_plot'', Callable),
      (ascii ''qcodes_integration'', Callable)]"

text \<open>
  Reading a global name inside a function body: Python searches the module namespace
  (then the builtins, none of which is called \<open>DB_PATH\<close> or \<open>QCODES_DB_PATH\<close>) and
  raises \<open>NameError\<close> when the name is missing.
\<close>

definition lookup_global :: "pystr \<Rightarrow> pyerror + binding" where
  "lookup_global n =
     (case map_of module_globals n of None \<Rightarrow> Inl (NameError n) | Some b \<Rightarrow> Inr b)"

section \<open>The SQLite file store\<close>

text \<open>
  A database file holds named schema objects in the order of their creation: tables
  (with their column declarations, name and declared type as written in the DDL, and
  their rows), views and indexes. A path of the file system holds a database, a file
  that is not a database, or nothing; \<open>creatable\<close> is the set of paths at which a new
  file can be made (the directory exists and may be written). Files that exist are
  taken to be readable and writable.
\<close>

record 'v table =
  cols :: "(pystr \<times> pystr) list"
  rows :: "'v list list"

datatype 'v schema_object = Table "'v table" | View | Index

type_synonym 'v database = "(pystr \<times> 'v schema_object) list"

datatype 'v db_file = Database "'v database" | NotADatabase

record 'v filesystem =
  files :: "pystr \<rightharpoonup> 'v db_file"
  creatable :: "pystr set"






text \<open>
  \<open>sqlite3.connect(path)\<close>: opens the file, making an empty database when the path
  holds nothing and a file can be created there; otherwise it raises
  \<open>OperationalError\<close>. The result is the file system and the content connected to.
\<close>

definition sqlite3_connect :: "'v filesystem \<Rightarrow> pystr \<Rightarrow>
    pyerror + 'v filesystem \<times> 'v db_file" where
  "sqlite3_connect fs path =
     (case files fs path of
        Some f \<Rightarrow> Inr (fs, f)
      | None \<Rightarrow>
          if path \<in> creatable fs
          then Inr (fs\<lparr>files := (files fs)(path \<mapsto> Database [])\<rparr>, Database [])
          else Inl (OperationalError (ascii ''unable to open database file'')))"

definition runs_schema :: "(pystr \<times> pystr) list" where
  "runs_schema =
     [(ascii ''id'', ascii ''INTEGER PRIMARY KEY''), (ascii ''timestamp'', ascii ''DATETIME''),
      (ascii ''parameters'', ascii ''TEXT''), (ascii ''data'', ascii ''BLOB'')]"



section \<open>Data frames and the polling fetcher\<close>

text \<open>
  A pandas \<open>DataFrame\<close> is stored column by column: a list of named columns, all of
  the same length. \<open>DataFrame.empty\<close> holds when an axis has length zero.
\<close>

type_synonym 'v dataframe = "(pystr \<times> 'v list) list"

definition nrows :: "'v dataframe \<Rightarrow> nat" where
  "nrows d = (case d of [] \<Rightarrow> 0 | c # _ \<Rightarrow> length (snd c))"

definition df_empty :: "'v dataframe \<Rightarrow> bool" where
  "df_empty d = (d = [] \<or> nrows d = 0)"

text \<open>The values a fetched column can hold: missing, integer, string, byte string.\<close>

datatype sqlval = Null | Integer int | Text pystr | Blob "nat list"

text \<open>
  \<open>Series.max()\<close>: integers, strings and byte strings compare among themselves (strings
  by code point, as the lexicographic order on lists does); a mixed column raises
  \<open>TypeError\<close>; missing values are skipped.
\<close>

fun py_max :: "sqlval \<Rightarrow> sqlval \<Rightarrow> pyerror + sqlval" where
  "py_max Null b = Inr b"
| "py_max a Null = Inr a"
| "py_max (Integer a) (Integer b) = Inr (Integer (max a b))"
| "py_max (Text a) (Text b) = Inr (Text (max a b))"
| "py_max (Blob a) (Blob b) = Inr (Blob (max a b))"
| "py_max a b = Inl TypeError"

fun series_max_from :: "sqlval \<Rightarrow> sqlval list \<Rightarrow> pyerror + sqlval" where
  "series_max_from m [] = Inr m"
| "series_max_from m (v # vs) =
     (case py_max m v of Inl e \<Rightarrow> Inl e | Inr m' \<Rightarrow> series_max_from m' vs)"

definition series_max :: "sqlval list \<Rightarrow> pyerror + sqlval" where
  "series_max vs = series_max_from Null vs"

text \<open>\<open>str\<close> of an integer, as the f-string on line 71 formats \<open>last_index\<close>.\<close>

fun digits :: "nat \<Rightarrow> pystr" where
  "digits n = (if n < 10 then [48 + n] else digits (n div 10) @ [48 + n mod 10])"

declare digits.simps [simp del]

definition str_of_int :: "int \<Rightarrow> pystr" where
  "str_of_int i = (if i < 0 then 45 # digits (nat (- i)) else digits (nat i))"

definition select_query :: "int \<Rightarrow> pystr" where
  "select_query last_index = ascii ''SELECT * FROM runs WHERE id > '' @ str_of_int last_index"

text \<open>
  Lines 69-75 of \<open>fetch_live_data\<close> once the path has a value: connect, query, and
  return the batch with the new watermark. How the SQL engine and pandas evaluate the
  statement on the connected file is their part and enters as the parameter
  \<open>read_sql\<close>. In \<open>return new_data, a if c else b\<close> the conditional is the second
  component.
\<close>

definition fetch_from :: "('v db_file \<Rightarrow> pystr \<Rightarrow> pyerror + sqlval dataframe) \<Rightarrow> 'v filesystem \<Rightarrow>
    pystr \<Rightarrow> int \<Rightarrow> 'v filesystem \<times> (pyerror + sqlval dataframe \<times> sqlval)" where
  "fetch_from read_sql fs path last_index =
     (case sqlite3_connect fs path of
        Inl e \<Rightarrow> (fs, Inl e)
      | Inr (fs1, conn) \<Rightarrow>
          (case read_sql conn (select_query last_index) of
             Inl e \<Rightarrow> (fs1, Inl e)
           | Inr new_data \<Rightarrow>
               (if \<not> df_empty new_data then
                  (case map_of new_data (ascii ''id'') of
                     None \<Rightarrow> (fs1, Inl (KeyError (ascii ''id'')))
                   | Some ids \<Rightarrow>
                       (case series_max ids of
                          Inl e \<Rightarrow> (fs1, Inl e)
                        | Inr m \<Rightarrow> (fs1, Inr (new_data, m))))
                else (fs1, Inr (new_data, Integer last_index)))))"

text \<open>
  The body of \<open>fetch_live_data\<close> (lines 63-75). Its first statement evaluates the
  global name \<open>DB_PATH\<close>; a raised exception leaves the file system as it was.
\<close>

definition fetch_live_data :: "('v db_file \<Rightarrow> pystr \<Rightarrow> pyerror + sqlval dataframe) \<Rightarrow>
    'v filesystem \<Rightarrow> int \<Rightarrow> 'v filesystem \<times> (pyerror + sqlval dataframe \<times> sqlval)" where
  "fetch_live_data read_sql fs last_index =
     (case lookup_global (ascii ''DB_PATH'') of
        Inl e \<Rightarrow> (fs, Inl e)
      | Inr (StrConst path) \<Rightarrow> fetch_from read_sql fs path last_index
      | Inr other \<Rightarrow> (fs, Inl TypeError))"

text \<open>
  The decorator on line 62, \<open>st.cache_data(ttl=300)\<close>, with the clock made explicit:
  the cache maps an argument to the value returned for it and the time it was stored.
  A call finds its argument stored less than \<open>ttl\<close> seconds ago and returns that value
  without running the function, or runs the function, stores what it returns under the
  present time, and lets an exception pass without storing anything.
\<close>

type_synonym ('k, 'r) cache = "'k \<rightharpoonup> 'r \<times> int"

definition cache_data :: "int \<Rightarrow> ('s \<Rightarrow> 'k \<Rightarrow> 's \<times> (pyerror + 'r)) \<Rightarrow> ('k, 'r) cache \<Rightarrow> int \<Rightarrow>
    's \<Rightarrow> 'k \<Rightarrow> ('k, 'r) cache \<times> 's \<times> (pyerror + 'r)" where
  "cache_data ttl f cache now st arg =
     (case (case cache arg of
              Some entry \<Rightarrow> if now < snd entry + ttl then Some (fst entry) else None
            | None \<Rightarrow> None) of
        Some v \<Rightarrow> (cache, st, Inr v)
      | None \<Rightarrow>
          (case f st arg of
             (st', Inl e) \<Rightarrow> (cache, st', Inl e)
           | (st', Inr v) \<Rightarrow> (cache(arg \<mapsto> (v, now)), st', Inr v)))"

text \<open>\<open>fetch_live_data\<close> as the module binds it: the body under the decorator.\<close>

definition fetch_live_data_cached :: "('v db_file \<Rightarrow> pystr \<Rightarrow> pyerror + sqlval dataframe) \<Rightarrow>
    (int, sqlval dataframe \<times> sqlval) cache \<Rightarrow> int \<Rightarrow> 'v filesystem \<Rightarrow> int \<Rightarrow>
    (int, sqlval dataframe \<times> sqlval) cache \<times> 'v filesystem \<times> (pyerror + sqlval dataframe \<times> sqlval)" where
  "fetch_live_data_cached read_sql cache now fs last_index =
     cache_data 300 (fetch_live_data read_sql) cache now fs last_index"

section \<open>Chart specifications and the chart dispatcher\<close>

text \<open>
  A Plotly figure is represented by what the program hands to the plotting library:
  the chart kind, the columns bound to each encoding together with their values, and
  the layout settings. Drawing (and the binning of a histogram under its bin cap
  \<open>nbins\<close>) is the library's part.
\<close>

datatype chart_kind = ScatterChart | LineChart | SurfaceChart | HistogramChart

datatype 'v color_arg = NoColor | ColorColumn pystr "'v list" | ColorSeries pystr "'v list"

record layout =
  template :: pystr
  hovermode :: pystr
  margin_l :: nat
  margin_r :: nat
  margin_t :: nat
  margin_b :: nat

record 'v figure =
  kind :: chart_kind
  x_data :: "(pystr \<times> 'v list) option"
  y_data :: "(pystr \<times> 'v list) option"
  color_data :: "'v color_arg"
  line_group_data :: "(pystr \<times> 'v list) option"
  hover_columns :: "(pystr \<times> 'v list) list"
  z_grid :: "'v list list"
  nbins :: "nat option"
  axis_labels :: "(pystr \<times> pystr) list"
  color_scale :: "pystr option"
  fig_layout :: "layout option"

definition blank_figure :: "chart_kind \<Rightarrow> 'v figure" where
  "blank_figure k =
     \<lparr>kind = k, x_data = None, y_data = None, color_data = NoColor,
      line_group_data = None, hover_columns = [], z_grid = [], nbins = None,
      axis_labels = [], color_scale = None, fig_layout = None\<rparr>"

text \<open>
  Plotly Express resolves a column name against the data frame and raises
  \<open>ValueError\<close> when the frame has no such column; \<open>data[[...]]\<close> raises \<open>KeyError\<close>.
\<close>

definition px_column :: "'v dataframe \<Rightarrow> pystr \<Rightarrow> pyerror + pystr \<times> 'v list" where
  "px_column d name =
     (case map_of d name of
        None \<Rightarrow> Inl (ValueError (ascii ''not the name of a column in data_frame''))
      | Some vs \<Rightarrow> Inr (name, vs))"

definition df_getitem :: "'v dataframe \<Rightarrow> pystr \<Rightarrow> pyerror + 'v list" where
  "df_getitem d name =
     (case map_of d name of None \<Rightarrow> Inl (KeyError name) | Some vs \<Rightarrow> Inr vs)"

fun dict_set :: "'k \<Rightarrow> 'a \<Rightarrow> ('k \<times> 'a) list \<Rightarrow> ('k \<times> 'a) list" where
  "dict_set k v [] = [(k, v)]"
| "dict_set k v (e # d) = (if fst e = k then (k, v) # d else e # dict_set k v d)"

text \<open>The four labels of the chart-type selector (line 95), by code point.\<close>

definition label_scatter :: pystr where "label_scatter = [25955, 40670, 22294]"
definition label_line :: pystr where "label_line = [32218, 22294]"
definition label_surface :: pystr where "label_surface = [34920, 38754, 22294]"
definition label_histogram :: pystr where "label_histogram = [30452, 26041, 22294]"

definition scatter_fixed :: "'v dataframe \<Rightarrow> pyerror + 'v figure" where
  "scatter_fixed d =
     and_then (px_column d (ascii ''voltage'')) (\<lambda>xc.
     and_then (px_column d (ascii ''current'')) (\<lambda>yc.
     and_then (px_column d (ascii ''temperature'')) (\<lambda>cc.
     and_then (px_column d (ascii ''frequency'')) (\<lambda>hc.
       Inr ((blank_figure ScatterChart)
              \<lparr>x_data := Some xc, y_data := Some yc,
               color_data := ColorColumn (fst cc) (snd cc), hover_columns := [hc]\<rparr>)))))"

definition line_fixed :: "'v dataframe \<Rightarrow> pyerror + 'v figure" where
  "line_fixed d =
     and_then (px_column d (ascii ''time'')) (\<lambda>xc.
     and_then (px_column d (ascii ''current'')) (\<lambda>yc.
     and_then (px_column d (ascii ''id'')) (\<lambda>gc.
     and_then (px_column d (ascii ''parameters'')) (\<lambda>cc.
       Inr ((blank_figure LineChart)
              \<lparr>x_data := Some xc, y_data := Some yc,
               color_data := ColorColumn (fst cc) (snd cc), line_group_data := Some gc\<rparr>)))))"

definition surface_fixed :: "'v dataframe \<Rightarrow> pyerror + 'v figure" where
  "surface_fixed d =
     and_then (df_getitem d (ascii ''voltage'')) (\<lambda>vs.
     and_then (df_getitem d (ascii ''current'')) (\<lambda>cs.
     and_then (df_getitem d (ascii ''temperature'')) (\<lambda>ts.
       Inr ((blank_figure SurfaceChart) \<lparr>z_grid := transpose [vs, cs, ts]\<rparr>))))"

definition histogram_fixed :: "'v dataframe \<Rightarrow> pyerror + 'v figure" where
  "histogram_fixed d =
     and_then (px_column d (ascii ''current'')) (\<lambda>xc.
       Inr ((blank_figure HistogramChart) \<lparr>x_data := Some xc, nbins := Some 50\<rparr>))"

definition update_layout :: "'v figure \<Rightarrow> 'v figure" where
  "update_layout fig =
     fig\<lparr>fig_layout := Some \<lparr>template = ascii ''plotly_dark'', hovermode = ascii ''x unified'',
                               margin_l = 0, margin_r = 0, margin_t = 30, margin_b = 0\<rparr>\<rparr>"

text \<open>
  \<open>create_plot\<close> (lines 111-135). The local \<open>fig\<close> is assigned in the branches of an
  \<open>if\<close>/\<open>elif\<close> chain that has no \<open>else\<close>: \<open>Inr None\<close> stands for the local still
  unbound, and \<open>fig.update_layout\<close> then raises \<open>UnboundLocalError\<close>. The statements
  that follow \<open>return fig\<close> in the source (the body left behind by a commented-out
  \<open>def\<close>) are never executed.
\<close>

definition create_plot :: "'v dataframe \<Rightarrow> pystr \<Rightarrow> pyerror + 'v figure" where
  "create_plot data plot_type =
     (case (if plot_type = label_scatter then map_sum id Some (scatter_fixed data)
            else if plot_type = label_line then map_sum id Some (line_fixed data)
            else if plot_type = label_surface then map_sum id Some (surface_fixed data)
            else if plot_type = label_histogram then map_sum id Some (histogram_fixed data)
            else Inr None) of
        Inl e \<Rightarrow> Inl e
      | Inr None \<Rightarrow> Inl (UnboundLocalError (ascii ''fig''))
      | Inr (Some fig) \<Rightarrow> Inr (update_layout fig))"





section \<open>The experiment loader and axis picker\<close>

text \<open>
  The external data source: \<open>load_by_id\<close> returns a dataset or raises. Of a dataset the
  loader uses the method \<open>to_pandas_dataframe()\<close>, which returns the samples as a data
  frame indexed by the setpoints or raises, and the attribute \<open>parameters\<close>, the
  comma-separated parameter names or \<open>None\<close>. \<open>reset_index\<close> turns the index levels
  into leading columns and raises when a level is named like an existing column.
\<close>

record 'v indexed_frame =
  index_levels :: "'v dataframe"
  data_columns :: "'v dataframe"

record 'v dataset =
  to_pandas_dataframe :: "pyerror + 'v indexed_frame"
  parameters :: "pystr option"

definition reset_index :: "'v indexed_frame \<Rightarrow> pyerror + 'v dataframe" where
  "reset_index f =
     (if set (map fst (index_levels f)) \<inter> set (map fst (data_columns f)) \<noteq> {}
      then Inl (ValueError (ascii ''cannot insert, already exists''))
      else Inr (index_levels f @ data_columns f))"

text \<open>\<open>str.split(sep)\<close> for a one-character separator: \<open>"".split(",")\<close> is \<open>[""]\<close>.\<close>

fun split_on :: "nat \<Rightarrow> pystr \<Rightarrow> pystr list" where
  "split_on sep [] = [[]]"
| "split_on sep (c # cs) =
     (if c = sep then [] # split_on sep cs
      else (case split_on sep cs of [] \<Rightarrow> [[c]] | w # ws \<Rightarrow> (c # w) # ws))"

text \<open>
  \<open>st.session_state\<close>, restricted to the three keys the function reads. A key that is
  absent is \<open>None\<close>; \<open>current_data\<close> may be present and hold Python's \<open>None\<close>.
\<close>

record 'v session_state =
  ss_df :: "'v dataframe option"
  ss_parameters :: "pystr list option"
  ss_current_data :: "'v dataframe option option"

text \<open>What the user did in this script run: the widget values Streamlit hands back.\<close>

record ui_input =
  run_id :: int
  load_pressed :: bool
  chart_type_pick :: "pystr option"
  x_pick :: "pystr option"
  y_pick :: "pystr option"
  color_pick :: "pystr option"

text \<open>
  The elements of the page, in order. \<open>ExceptionBox\<close> is the box in which Streamlit's
  script runner shows an exception that left the script uncaught; no statement of the
  script makes one.
\<close>

datatype 'v element =
    SidebarHeader pystr
  | SidebarNumberInput pystr int int
  | SidebarButton pystr
  | SidebarWrite pystr "pystr list"
  | SidebarRadio pystr "pystr list"
  | SidebarSelectbox pystr "pystr list" nat
  | PlotlyChart "'v figure"
  | Dataframe "'v dataframe"
  | LineChartOf "'v indexed_frame"
  | ExceptionBox pyerror

definition label_title :: pystr where
  "label_title = ascii ''QCoDeS '' @ [25511, 21046, 25509, 21475]"
definition label_run_id :: pystr where
  "label_run_id = [36664, 20837, 23526, 39511] @ ascii '' ID''"
definition label_load :: pystr where
  "label_load = [36617, 20837, 23526, 39511, 25976, 25818]"
definition label_available :: pystr where
  "label_available = [21487, 29992, 21443, 25976, 65306]"
definition label_chart_type :: pystr where
  "label_chart_type = [36984, 25799, 22294, 34920, 39006, 22411]"
definition label_line_chart :: pystr where
  "label_line_chart = [25240, 32218, 22294]"
definition label_heatmap :: pystr where
  "label_heatmap = [29105, 21147, 22294]"
definition label_x_axis :: pystr where
  "label_x_axis = [36984, 25799, 32, 88, 32, 36600, 35722, 25976]"
definition label_y_axis :: pystr where
  "label_y_axis = [36984, 25799, 32, 89, 32, 36600, 35722, 25976]"
definition label_color :: pystr where
  "label_color = [36984, 25799, 38991, 33394, 23565, 25033, 35722, 25976]"

text \<open>
  A choice widget returns the option the user picked, or the option at the default
  index while the user has not picked one of the options on offer; \<open>None\<close> when there
  is nothing to choose from. (The call sites below always pass a default index inside
  a non-empty option list.)
\<close>

definition selectbox :: "pystr list \<Rightarrow> nat \<Rightarrow> pystr option \<Rightarrow> pystr option" where
  "selectbox options index pick =
     (case pick of
        Some v \<Rightarrow> if v \<in> set options then Some v
                  else if index < length options then Some (options ! index) else None
      | None \<Rightarrow> if index < length options then Some (options ! index) else None)"

definition radio :: "pystr list \<Rightarrow> pystr option \<Rightarrow> pystr option" where
  "radio options pick = selectbox options 0 pick"

definition px_line :: "'v dataframe \<Rightarrow> pystr \<Rightarrow> pystr \<Rightarrow> (pystr \<times> pystr) list \<Rightarrow>
    pyerror + 'v figure" where
  "px_line d xn yn lbls =
     and_then (px_column d xn) (\<lambda>xc.
     and_then (px_column d yn) (\<lambda>yc.
       Inr ((blank_figure LineChart)
              \<lparr>x_data := Some xc, y_data := Some yc, axis_labels := lbls\<rparr>)))"

definition px_scatter :: "'v dataframe \<Rightarrow> pystr \<Rightarrow> pystr \<Rightarrow> pystr \<times> 'v list \<Rightarrow>
    (pystr \<times> pystr) list \<Rightarrow> pystr \<Rightarrow> pyerror + 'v figure" where
  "px_scatter d xn yn series lbls scale =
     and_then (px_column d xn) (\<lambda>xc.
     and_then (px_column d yn) (\<lambda>yc.
       Inr ((blank_figure ScatterChart)
              \<lparr>x_data := Some xc, y_data := Some yc,
               color_data := ColorSeries (fst series) (snd series),
               axis_labels := lbls, color_scale := Some scale\<rparr>)))"

text \<open>
  Lines 233-235 and 242-246: a chart is built only when every chosen name is truthy
  (neither \<open>None\<close> nor the empty string). \<open>None\<close> stands for "no chart attempted".
\<close>

definition line_chart_of :: "'v dataframe \<Rightarrow> pystr option \<Rightarrow> pystr option \<Rightarrow>
    (pyerror + 'v figure) option" where
  "line_chart_of d x_param y_param =
     (case (x_param, y_param) of
        (Some xn, Some yn) \<Rightarrow>
          if xn \<noteq> [] \<and> yn \<noteq> []
          then Some (px_line d xn yn (dict_set yn yn (dict_set xn xn [])))
          else None
      | _ \<Rightarrow> None)"

definition heatmap_of :: "'v dataframe \<Rightarrow> pystr option \<Rightarrow> pystr option \<Rightarrow> pystr option \<Rightarrow>
    (pyerror + 'v figure) option" where
  "heatmap_of d x_param y_param color_param =
     (case (x_param, y_param, color_param) of
        (Some xn, Some yn, Some cn) \<Rightarrow>
          if xn \<noteq> [] \<and> yn \<noteq> [] \<and> cn \<noteq> []
          then Some (and_then (df_getitem d cn) (\<lambda>cv.
                 px_scatter d xn yn (cn, cv)
                   (dict_set cn cn (dict_set yn yn (dict_set xn xn [])))
                   (ascii ''Viridis'')))
          else None
      | _ \<Rightarrow> None)"

text \<open>Rendering an attempted chart: the page gains the chart, or the run raises.\<close>

definition plot_attempt :: "'v element list \<Rightarrow> (pyerror + 'v figure) option \<Rightarrow>
    'v element list \<times> pyerror option" where
  "plot_attempt els attempt =
     (case attempt of
        None \<Rightarrow> (els, None)
      | Some (Inl e) \<Rightarrow> (els, Some e)
      | Some (Inr fig) \<Rightarrow> (els @ [PlotlyChart fig], None))"

text \<open>
  Lines 220-246. The result is the elements rendered, the binding of the local
  \<open>x_param\<close> (\<open>None\<close> while unbound) and the exception raised, if any.
\<close>

definition axis_picker :: "ui_input \<Rightarrow> 'v session_state \<Rightarrow>
    'v element list \<times> pystr option option \<times> pyerror option" where
  "axis_picker inp s =
     (case (ss_df s, ss_parameters s) of
        (Some d, Some ps) \<Rightarrow>
          (let shown = [SidebarWrite label_available ps,
                        SidebarRadio label_chart_type [label_line_chart, label_heatmap]];
               chart_type = radio [label_line_chart, label_heatmap] (chart_type_pick inp);
               iy = (if length ps > 1 then 1 else 0);
               ic = (if length ps > 2 then 2 else 0);
               x_param = selectbox ps 0 (x_pick inp);
               y_param = selectbox ps iy (y_pick inp);
               color_param = selectbox ps ic (color_pick inp)
           in if chart_type = Some label_line_chart then
                (case plot_attempt
                        (shown @ [SidebarSelectbox label_x_axis ps 0,
                                  SidebarSelectbox label_y_axis ps iy])
                        (line_chart_of d x_param y_param) of
                   (els, err) \<Rightarrow> (els, Some x_param, err))
              else if chart_type = Some label_heatmap then
                (case plot_attempt
                        (shown @ [SidebarSelectbox label_x_axis ps 0,
                                  SidebarSelectbox label_y_axis ps iy,
                                  SidebarSelectbox label_color ps ic])
                        (heatmap_of d x_param y_param color_param) of
                   (els, err) \<Rightarrow> (els, Some x_param, err))
              else (shown, None, None))
      | _ \<Rightarrow> ([], None, None))"

text \<open>
  Lines 214-218: the two assignments to the session state come after every statement
  that can raise. The result pairs the session state with the exception raised, if any.
\<close>

definition load_experiment :: "(int \<Rightarrow> pyerror + 'v dataset) \<Rightarrow> int \<Rightarrow> 'v session_state \<Rightarrow>
    'v session_state \<times> pyerror option" where
  "load_experiment load_by_id rid s =
     (case load_by_id rid of
        Inl e \<Rightarrow> (s, Some e)
      | Inr dataset \<Rightarrow>
          (case and_then (to_pandas_dataframe dataset) reset_index of
             Inl e \<Rightarrow> (s, Some e)
           | Inr d \<Rightarrow>
               (case parameters dataset of
                  None \<Rightarrow> (s, Some (AttributeError (ascii ''split'')))
                | Some p \<Rightarrow>
                    (s\<lparr>ss_df := Some d, ss_parameters := Some (split_on 44 p)\<rparr>, None))))"

text \<open>
  Lines 251-253: \<open>set_index(x_param)\<close> reads a local that is bound only when one of the
  two chart branches ran, and needs it to name a column.
\<close>

definition show_current_data :: "'v session_state \<Rightarrow> pystr option option \<Rightarrow>
    'v element list \<times> pyerror option" where
  "show_current_data s x_binding =
     (case ss_current_data s of
        Some (Some cd) \<Rightarrow>
          (case x_binding of
             None \<Rightarrow> ([Dataframe cd], Some (UnboundLocalError (ascii ''x_param'')))
           | Some None \<Rightarrow> ([Dataframe cd], Some (KeyError (ascii ''None'')))
           | Some (Some c) \<Rightarrow>
               (case map_of cd c of
                  None \<Rightarrow> ([Dataframe cd], Some (KeyError c))
                | Some vs \<Rightarrow>
                    ([Dataframe cd,
                      LineChartOf \<lparr>index_levels = [(c, vs)],
                                   data_columns = filter (\<lambda>col. fst col \<noteq> c) cd\<rparr>],
                     None)))
      | _ \<Rightarrow> ([], None))"

text \<open>
  \<open>qcodes_integration\<close> (lines 208-253), one script run: the session state it leaves,
  the elements it rendered, and the exception that ended it, if any.
\<close>

record 'v outcome =
  session :: "'v session_state"
  rendered :: "'v element list"
  raised :: "pyerror option"

definition load_stage :: "(int \<Rightarrow> pyerror + 'v dataset) \<Rightarrow> ui_input \<Rightarrow> 'v session_state \<Rightarrow>
    'v session_state \<times> pyerror option" where
  "load_stage load_by_id inp s =
     (if load_pressed inp then load_experiment load_by_id (run_id inp) s else (s, None))"

definition qcodes_integration :: "(int \<Rightarrow> pyerror + 'v dataset) \<Rightarrow> ui_input \<Rightarrow>
    'v session_state \<Rightarrow> 'v outcome" where
  "qcodes_integration load_by_id inp s =
     (let top = [SidebarHeader label_title, SidebarNumberInput label_run_id 1 1,
                 SidebarButton label_load]
      in case load_stage load_by_id inp s of
           (s1, Some e) \<Rightarrow> \<lparr>session = s1, rendered = top, raised = Some e\<rparr>
         | (s1, None) \<Rightarrow>
             (case axis_picker inp s1 of
                (els, x_binding, Some e) \<Rightarrow>
                  \<lparr>session = s1, rendered = top @ els, raised = Some e\<rparr>
              | (els, x_binding, None) \<Rightarrow>
                  (case show_current_data s1 x_binding of
                     (els2, err) \<Rightarrow>
                       \<lparr>session = s1, rendered = top @ els @ els2, raised = err\<rparr>)))"

text \<open>
  What the user sees of a run: the elements the script rendered, followed by the
  exception box when an exception ended the script.
\<close>

definition streamlit_page :: "'v outcome \<Rightarrow> 'v element list" where
  "streamlit_page r =
     rendered r @ (case raised r of None \<Rightarrow> [] | Some e \<Rightarrow> [ExceptionBox e])"

fun is_chart :: "'v element \<Rightarrow> bool" where
  "is_chart (PlotlyChart fig) = True"
| "is_chart (LineChartOf frame) = True"
| "is_chart other = False"

section \<open>Observations and sample inputs\<close>









text \<open>A file created by \<open>init_database\<close> that has since received three runs, then a fourth.\<close>

definition three_runs :: "sqlval table" where
  "three_runs =
     \<lparr>cols = runs_schema,
      rows = [[Integer 1, Null, Text (ascii ''a''), Null],
              [Integer 2, Null, Text (ascii ''b''), Null],
              [Integer 3, Null, Text (ascii ''c''), Null]]\<rparr>"

definition fs_three :: "sqlval filesystem" where
  "fs_three =
     \<lparr>files = [QCODES_DB_PATH \<mapsto> Database [(ascii ''runs'', Table three_runs)]],
      creatable = {}\<rparr>"

definition fs_four :: "sqlval filesystem" where
  "fs_four =
     \<lparr>files = [QCODES_DB_PATH \<mapsto> Database [(ascii ''runs'',
         Table (three_runs\<lparr>rows := rows three_runs @ [[Integer 4, Null, Text (ascii ''d''), Null]]\<rparr>))]],
      creatable = {}\<rparr>"

text \<open>
  A batch with the four columns \<open>create_plot\<close> reads for a scatter chart, 1000 samples
  each, and one with only the two positional columns and the colour column.
\<close>

definition batch_1000 :: "int dataframe" where
  "batch_1000 =
     [(ascii ''voltage'', replicate 1000 1), (ascii ''current'', replicate 1000 2),
      (ascii ''temperature'', replicate 1000 3), (ascii ''frequency'', replicate 1000 4)]"



text \<open>A session holding a loaded table, and the inputs of the scenarios below.\<close>

definition iv_table :: "int dataframe" where
  "iv_table = [(ascii ''voltage'', [0, 1, 2]), (ascii ''current'', [10, 20, 30])]"

definition iv_session :: "int session_state" where
  "iv_session =
     \<lparr>ss_df = Some iv_table, ss_parameters = Some [ascii ''voltage'', ascii ''current''],
      ss_current_data = None\<rparr>"

definition fresh_session :: "int session_state" where
  "fresh_session = \<lparr>ss_df = None, ss_parameters = None, ss_current_data = None\<rparr>"

definition press_load :: ui_input where
  "press_load =
     \<lparr>run_id = 1, load_pressed = True, chart_type_pick = None,
      x_pick = None, y_pick = None, color_pick = None\<rparr>"

definition pick_voltage_current :: ui_input where
  "pick_voltage_current =
     \<lparr>run_id = 1, load_pressed = False, chart_type_pick = None,
      x_pick = Some (ascii ''voltage''), y_pick = Some (ascii ''current''), color_pick = None\<rparr>"

text \<open>A data source without any run, and one whose run 1 has an empty parameter string.\<close>

definition no_runs :: "int \<Rightarrow> pyerror + int dataset" where
  "no_runs rid = Inl (ValueError (ascii ''Run does not exist in the database''))"

definition nameless_dataset :: "int dataset" where
  "nameless_dataset =
     \<lparr>to_pandas_dataframe = Inr \<lparr>index_levels = [(ascii ''index'', [0])], data_columns = []\<rparr>,
      parameters = Some []\<rparr>"

definition nameless_source :: "int \<Rightarrow> pyerror + int dataset" where
  "nameless_source rid = (if rid = 1 then Inr nameless_dataset else no_runs rid)"

section \<open>Name resolution\<close>

lemma lookup_DB_PATH: "lookup_global (ascii ''DB_PATH'') = Inl (NameError (ascii ''DB_PATH''))"
  by (simp add: lookup_global_def module_globals_def ascii_def)


text \<open>
  Claim C2. The module binds \<open>QCODES_DB_PATH\<close> but never \<open>DB_PATH\<close>, so the body of
  \<open>fetch_live_data\<close> raises \<open>NameError\<close> for every file system, every \<open>last_index\<close>
  and whatever the SQL engine would answer, before it connects or queries: the file
  system is returned untouched.
\<close>

theorem fetch_live_data_name_error:
  "map_of module_globals (ascii ''DB_PATH'') = None \<and>
   map_of module_globals (ascii ''QCODES_DB_PATH'') = Some (StrConst QCODES_DB_PATH) \<and>
   fetch_live_data read_sql fs last_index = (fs, Inl (NameError (ascii ''DB_PATH'')))"
  by (simp add: fetch_live_data_def lookup_global_def module_globals_def ascii_def)

section \<open>The schema initializer\<close>















section \<open>The chart dispatcher\<close>

text \<open>
  Claim C6. A selector that is none of the four known labels produces no chart:
  no branch binds \<open>fig\<close>, and the call ends in \<open>UnboundLocalError\<close> instead of
  returning a figure.
\<close>

theorem create_plot_unknown_kind:
  "plot_type \<notin> {label_scatter, label_line, label_surface, label_histogram} \<Longrightarrow>
   create_plot data plot_type = Inl (UnboundLocalError (ascii ''fig''))"
  by (simp add: create_plot_def)

theorem create_plot_unknown_kind_witness:
  "ascii ''pie'' \<notin> {label_scatter, label_line, label_surface, label_histogram} \<and>
   create_plot batch_1000 (ascii ''pie'') = Inl (UnboundLocalError (ascii ''fig''))"
proof -
  have h: "ascii ''pie'' \<notin> {label_scatter, label_line, label_surface, label_histogram}"
    by (simp add: ascii_def label_scatter_def label_line_def label_surface_def label_histogram_def)
  from h create_plot_unknown_kind [OF h, of batch_1000] show ?thesis by simp
qed










section \<open>The polling fetcher\<close>

text \<open>
  Claim C1, at a failing input. With runs 1, 2 and 3 stored and watermark 1 the claim
  promises the batch of runs 2 and 3 in ascending order; the call returns no batch, it
  raises \<open>NameError\<close> on \<open>DB_PATH\<close>.
\<close>

theorem fetch_live_data_returns_no_batch:
  "fetch_live_data read_sql fs_three 1 = (fs_three, Inl (NameError (ascii ''DB_PATH'')))"
  by (simp add: fetch_live_data_def lookup_DB_PATH)

text \<open>
  Claim C3, at failing inputs. With watermark 3 (empty batch) the claim promises the
  watermark 3 back without a crash, with watermark 0 the maximum id 3; both calls
  raise \<open>NameError\<close> on \<open>DB_PATH\<close> and return no pair.
\<close>

theorem fetch_live_data_returns_no_watermark:
  "fetch_live_data read_sql fs_three 3 = (fs_three, Inl (NameError (ascii ''DB_PATH''))) \<and>
   fetch_live_data read_sql fs_three 0 = (fs_three, Inl (NameError (ascii ''DB_PATH'')))"
  by (simp add: fetch_live_data_def lookup_DB_PATH)

text \<open>
  The decorator by itself does what the cache policy asks of any function that returns:
  a stored value younger than \<open>ttl\<close> is handed back without running the function, so
  two calls inside the window agree whatever happened to the state in between, and an
  entry of age \<open>ttl\<close> or more is replaced by a fresh result.
\<close>

lemma cache_data_hit:
  "cache arg = Some (v, t) \<Longrightarrow> now < t + ttl \<Longrightarrow>
   cache_data ttl f cache now st arg = (cache, st, Inr v)"
  by (simp add: cache_data_def)

lemma cache_data_expired:
  "cache arg = Some (v, t) \<Longrightarrow> t + ttl \<le> now \<Longrightarrow> f st arg = (st', Inr v') \<Longrightarrow>
   cache_data ttl f cache now st arg = (cache(arg \<mapsto> (v', now)), st', Inr v')"
  by (simp add: cache_data_def)

lemma cache_data_first:
  "cache arg = None \<Longrightarrow> f st arg = (st', Inr v) \<Longrightarrow>
   cache_data ttl f cache now st arg = (cache(arg \<mapsto> (v, now)), st', Inr v)"
  by (simp add: cache_data_def)

lemma cache_data_same_within_window:
  assumes "cache arg = None" and "f st arg = (st', Inr v)"
    and "cache_data ttl f cache t0 st arg = (cache1, st1, r1)"
    and "t0 \<le> now" and "now < t0 + ttl"
  shows "cache_data ttl f1 cache1 now st2 arg = (cache1, st2, r1)"
  using assms by (auto simp add: cache_data_def)

lemma fetch_live_data_cached_raises:
  "cache last_index = None \<Longrightarrow>
   fetch_live_data_cached read_sql cache now fs last_index =
     (cache, fs, Inl (NameError (ascii ''DB_PATH'')))"
  by (simp add: fetch_live_data_cached_def cache_data_def fetch_live_data_def lookup_DB_PATH)

text \<open>
  Claim C4, at a failing input. A first call with watermark 0 at time 0, then a fourth
  run is stored, then the same call at time 10 (inside the 300-second window) and at
  time 301 (after it). The claim promises the rows of the first call again at time 10
  and the rows with the fourth run at time 301; every one of the calls raises
  \<open>NameError\<close> on \<open>DB_PATH\<close>, nothing is ever cached, and no call sees a row.
\<close>

theorem fetch_live_data_cached_never_sees_rows:
  "fetch_live_data_cached read_sql Map.empty 0 fs_three 0 =
     (Map.empty, fs_three, Inl (NameError (ascii ''DB_PATH''))) \<and>
   fetch_live_data_cached read_sql Map.empty 10 fs_four 0 =
     (Map.empty, fs_four, Inl (NameError (ascii ''DB_PATH''))) \<and>
   fetch_live_data_cached read_sql Map.empty 301 fs_four 0 =
     (Map.empty, fs_four, Inl (NameError (ascii ''DB_PATH'')))"
  by (simp add: fetch_live_data_cached_raises)

section \<open>The experiment loader\<close>

lemma qcodes_integration_load_raises:
  "load_stage load_by_id inp s = (s1, Some e) \<Longrightarrow>
   qcodes_integration load_by_id inp s =
     \<lparr>session = s1,
      rendered = [SidebarHeader label_title, SidebarNumberInput label_run_id 1 1,
                  SidebarButton label_load],
      raised = Some e\<rparr>"
  by (simp add: qcodes_integration_def)

text \<open>
  Claim C5. When the load button is pressed and \<open>load_by_id\<close> raises its not-found
  error for the run identifier, the user is shown that error (the exception box follows
  the three sidebar widgets on the page, and nothing else is rendered) and the session
  state, with the stored table and parameter list, is the prior one.
\<close>

theorem load_failure_shown:
  "load_pressed inp \<Longrightarrow> load_by_id (run_id inp) = Inl e \<Longrightarrow>
   session (qcodes_integration load_by_id inp s) = s \<and>
   raised (qcodes_integration load_by_id inp s) = Some e \<and>
   streamlit_page (qcodes_integration load_by_id inp s) =
     [SidebarHeader label_title, SidebarNumberInput label_run_id 1 1, SidebarButton label_load,
      ExceptionBox e]"
  by (simp add: qcodes_integration_load_raises load_stage_def load_experiment_def
      streamlit_page_def)

theorem load_failure_shown_witness:
  "load_pressed press_load \<and>
   no_runs (run_id press_load) = Inl (ValueError (ascii ''Run does not exist in the database'')) \<and>
   session (qcodes_integration no_runs press_load iv_session) = iv_session \<and>
   ss_df (session (qcodes_integration no_runs press_load iv_session)) = Some iv_table \<and>
   streamlit_page (qcodes_integration no_runs press_load iv_session) =
     [SidebarHeader label_title, SidebarNumberInput label_run_id 1 1, SidebarButton label_load,
      ExceptionBox (ValueError (ascii ''Run does not exist in the database''))]"
proof -
  have a: "load_pressed press_load" by (simp add: press_load_def)
  have b: "no_runs (run_id press_load) =
      Inl (ValueError (ascii ''Run does not exist in the database''))"
    by (simp add: no_runs_def)
  have c: "ss_df iv_session = Some iv_table" by (simp add: iv_session_def)
  from a b c load_failure_shown
    [where inp = press_load and load_by_id = no_runs and s = iv_session, OF a b]
  show ?thesis by simp
qed

lemma selectbox_member: "v \<in> set options \<Longrightarrow> selectbox options i (Some v) = Some v"
  by (simp add: selectbox_def)

lemma radio_line:
  "pick = None \<or> pick = Some label_line_chart \<Longrightarrow>
   radio [label_line_chart, label_heatmap] pick = Some label_line_chart"
  by (auto simp add: radio_def selectbox_def)

lemma ascii_voltage_nonempty: "ascii ''voltage'' \<noteq> []" "ascii ''current'' \<noteq> []"
  "ascii ''current'' \<noteq> ascii ''voltage''" "ascii ''voltage'' \<noteq> ascii ''current''"
  by (simp_all add: ascii_def)

lemma axis_picker_line:
  assumes "ss_df s = Some d" and "ss_parameters s = Some ps"
    and "ascii ''voltage'' \<in> set ps" and "ascii ''current'' \<in> set ps"
    and "map_of d (ascii ''voltage'') = Some vs" and "map_of d (ascii ''current'') = Some cs"
    and "chart_type_pick inp = None \<or> chart_type_pick inp = Some label_line_chart"
    and "x_pick inp = Some (ascii ''voltage'')" and "y_pick inp = Some (ascii ''current'')"
  shows "axis_picker inp s =
     ([SidebarWrite label_available ps,
       SidebarRadio label_chart_type [label_line_chart, label_heatmap],
       SidebarSelectbox label_x_axis ps 0,
       SidebarSelectbox label_y_axis ps (if length ps > 1 then 1 else 0),
       PlotlyChart ((blank_figure LineChart)
         \<lparr>x_data := Some (ascii ''voltage'', vs), y_data := Some (ascii ''current'', cs),
          axis_labels := [(ascii ''voltage'', ascii ''voltage''),
                          (ascii ''current'', ascii ''current'')]\<rparr>)],
      Some (Some (ascii ''voltage'')), None)"
  using assms
  by (simp add: axis_picker_def radio_line selectbox_member line_chart_of_def px_line_def
      px_column_def and_then_def plot_attempt_def ascii_voltage_nonempty Let_def)

text \<open>
  Claim C8. With a loaded table in the session that has the columns \<open>voltage\<close> and
  \<open>current\<close>, both among the stored parameter names, choosing X = voltage and
  Y = current on the line-chart setting renders a line chart whose x and y data are
  exactly those two columns of the table.
\<close>

theorem axis_picker_line_roundtrip:
  assumes "load_stage load_by_id inp s0 = (s, None)"
    and "ss_df s = Some d" and "ss_parameters s = Some ps"
    and "ascii ''voltage'' \<in> set ps" and "ascii ''current'' \<in> set ps"
    and "map_of d (ascii ''voltage'') = Some vs" and "map_of d (ascii ''current'') = Some cs"
    and "chart_type_pick inp = None \<or> chart_type_pick inp = Some label_line_chart"
    and "x_pick inp = Some (ascii ''voltage'')" and "y_pick inp = Some (ascii ''current'')"
  shows "PlotlyChart ((blank_figure LineChart)
           \<lparr>x_data := Some (ascii ''voltage'', vs), y_data := Some (ascii ''current'', cs),
            axis_labels := [(ascii ''voltage'', ascii ''voltage''),
                            (ascii ''current'', ascii ''current'')]\<rparr>)
         \<in> set (rendered (qcodes_integration load_by_id inp s0))"
proof -
  note ap = axis_picker_line [OF assms(2-10)]
  show ?thesis
    by (simp add: qcodes_integration_def assms(1) ap split: prod.splits option.splits)
qed

theorem axis_picker_line_roundtrip_witness:
  "PlotlyChart ((blank_figure LineChart)
     \<lparr>x_data := Some (ascii ''voltage'', [0, 1, 2]), y_data := Some (ascii ''current'', [10, 20, 30]),
      axis_labels := [(ascii ''voltage'', ascii ''voltage''),
                      (ascii ''current'', ascii ''current'')]\<rparr>)
   \<in> set (rendered (qcodes_integration no_runs pick_voltage_current iv_session))"
proof (rule axis_picker_line_roundtrip)
  show "load_stage no_runs pick_voltage_current iv_session = (iv_session, None)"
    by (simp add: load_stage_def pick_voltage_current_def)
  show "ss_df iv_session = Some iv_table" by (simp add: iv_session_def)
  show "ss_parameters iv_session = Some [ascii ''voltage'', ascii ''current'']"
    by (simp add: iv_session_def)
  show "ascii ''voltage'' \<in> set [ascii ''voltage'', ascii ''current'']" by simp
  show "ascii ''current'' \<in> set [ascii ''voltage'', ascii ''current'']" by simp
  show "map_of iv_table (ascii ''voltage'') = Some [0, 1, 2]" by (simp add: iv_table_def)
  show "map_of iv_table (ascii ''current'') = Some [10, 20, 30]"
    by (simp add: iv_table_def ascii_def)
  show "chart_type_pick pick_voltage_current = None \<or>
        chart_type_pick pick_voltage_current = Some label_line_chart"
    by (simp add: pick_voltage_current_def)
  show "x_pick pick_voltage_current = Some (ascii ''voltage'')"
    by (simp add: pick_voltage_current_def)
  show "y_pick pick_voltage_current = Some (ascii ''current'')"
    by (simp add: pick_voltage_current_def)
qed

lemma load_experiment_empty_parameters:
  "load_by_id rid = Inr ds \<Longrightarrow> parameters ds = Some [] \<Longrightarrow>
   to_pandas_dataframe ds = Inr frame \<Longrightarrow> reset_index frame = Inr d \<Longrightarrow>
   load_experiment load_by_id rid s = (s\<lparr>ss_df := Some d, ss_parameters := Some [[]]\<rparr>, None)"
  by (simp add: load_experiment_def and_then_def)

lemma selectbox_single_empty: "selectbox [[]] 0 pick = Some []"
  by (simp add: selectbox_def split: option.splits)

lemma label_line_heatmap: "label_line_chart \<noteq> label_heatmap" "label_heatmap \<noteq> label_line_chart"
  by (simp_all add: label_line_chart_def label_heatmap_def)

lemma radio_pick:
  "radio [label_line_chart, label_heatmap] pick =
     (if pick = Some label_heatmap then Some label_heatmap else Some label_line_chart)"
  by (auto simp add: radio_def selectbox_def split: option.splits)

lemma axis_picker_empty_name:
  assumes "ss_df s = Some d" and "ss_parameters s = Some [[]]"
  shows "axis_picker inp s =
           ([SidebarWrite label_available [[]],
             SidebarRadio label_chart_type [label_line_chart, label_heatmap],
             SidebarSelectbox label_x_axis [[]] 0,
             SidebarSelectbox label_y_axis [[]] 0] @
            (if chart_type_pick inp = Some label_heatmap
             then [SidebarSelectbox label_color [[]] 0] else []),
            Some (Some []), None)"
  using assms
  by (simp add: axis_picker_def radio_pick label_line_heatmap selectbox_single_empty
      line_chart_of_def heatmap_of_def plot_attempt_def Let_def)

text \<open>
  Claim C10, as the code has it. A dataset whose table can be read and whose parameter
  string is empty raises nothing in the loader: \<open>"".split(",")\<close> is the one-element
  list of the empty name, which is stored in the session with the table, written to the
  sidebar and offered in the axis pickers. No Plotly chart is drawn, because the empty
  name is falsy; and when the session has no \<open>current_data\<close>, the run ends without an
  exception, having rendered the sidebar only, with no chart of any kind.
\<close>

theorem empty_parameters_stored:
  assumes "load_pressed inp" and "load_by_id (run_id inp) = Inr ds"
    and "parameters ds = Some []"
    and "to_pandas_dataframe ds = Inr frame" and "reset_index frame = Inr d"
  shows "session (qcodes_integration load_by_id inp s) =
           s\<lparr>ss_df := Some d, ss_parameters := Some [[]]\<rparr> \<and>
         (\<forall>fig. PlotlyChart fig \<notin> set (rendered (qcodes_integration load_by_id inp s))) \<and>
         (ss_current_data s = None \<longrightarrow>
            raised (qcodes_integration load_by_id inp s) = None \<and>
            filter is_chart (rendered (qcodes_integration load_by_id inp s)) = [] \<and>
            rendered (qcodes_integration load_by_id inp s) =
              [SidebarHeader label_title, SidebarNumberInput label_run_id 1 1,
               SidebarButton label_load, SidebarWrite label_available [[]],
               SidebarRadio label_chart_type [label_line_chart, label_heatmap],
               SidebarSelectbox label_x_axis [[]] 0, SidebarSelectbox label_y_axis [[]] 0] @
              (if chart_type_pick inp = Some label_heatmap
               then [SidebarSelectbox label_color [[]] 0] else []))"
proof -
  let ?s1 = "s\<lparr>ss_df := Some d, ss_parameters := Some [[]]\<rparr>"
  have ld: "load_stage load_by_id inp s = (?s1, None)"
    using assms by (simp add: load_stage_def load_experiment_empty_parameters)
  have ap: "axis_picker inp ?s1 =
           ([SidebarWrite label_available [[]],
             SidebarRadio label_chart_type [label_line_chart, label_heatmap],
             SidebarSelectbox label_x_axis [[]] 0,
             SidebarSelectbox label_y_axis [[]] 0] @
            (if chart_type_pick inp = Some label_heatmap
             then [SidebarSelectbox label_color [[]] 0] else []),
            Some (Some []), None)"
    by (rule axis_picker_empty_name [of ?s1 d]) simp_all
  show ?thesis
    by (auto simp add: qcodes_integration_def ld ap show_current_data_def
        split: prod.splits option.splits)
qed

theorem empty_parameters_stored_witness:
  "load_pressed press_load \<and> nameless_source (run_id press_load) = Inr nameless_dataset \<and>
   parameters nameless_dataset = Some [] \<and>
   session (qcodes_integration nameless_source press_load fresh_session) =
     \<lparr>ss_df = Some [(ascii ''index'', [0])], ss_parameters = Some [[]], ss_current_data = None\<rparr> \<and>
   raised (qcodes_integration nameless_source press_load fresh_session) = None \<and>
   filter is_chart (rendered (qcodes_integration nameless_source press_load fresh_session)) = []"
proof -
  have a: "load_pressed press_load" by (simp add: press_load_def)
  have b: "nameless_source (run_id press_load) = Inr nameless_dataset"
    by (simp add: nameless_source_def press_load_def)
  have c: "parameters nameless_dataset = Some []" by (simp add: nameless_dataset_def)
  have f: "to_pandas_dataframe nameless_dataset =
      Inr \<lparr>index_levels = [(ascii ''index'', [0])], data_columns = []\<rparr>"
    by (simp add: nameless_dataset_def)
  have d: "reset_index \<lparr>index_levels = [(ascii ''index'', [0::int])], data_columns = []\<rparr> =
      Inr [(ascii ''index'', [0])]"
    by (simp add: reset_index_def)
  have e: "ss_current_data fresh_session = None" by (simp add: fresh_session_def)
  from empty_parameters_stored
    [where inp = press_load and load_by_id = nameless_source and s = fresh_session,
     OF a b c f d] e
  have "session (qcodes_integration nameless_source press_load fresh_session) =
          fresh_session\<lparr>ss_df := Some [(ascii ''index'', [0])], ss_parameters := Some [[]]\<rparr>"
    and "raised (qcodes_integration nameless_source press_load fresh_session) = None"
    and "filter is_chart (rendered (qcodes_integration nameless_source press_load fresh_session)) = []"
    by simp_all
  with a b c show ?thesis by (simp add: fresh_session_def)
qed

text \<open>
  Claim C10, as the spec states it, fails: for run 1 with an empty parameter string the
  loader stores the list and offers the axis choices, and no failure is reported.
\<close>

theorem empty_parameters_proceeds:
  "qcodes_integration nameless_source press_load fresh_session =
     \<lparr>session = \<lparr>ss_df = Some [(ascii ''index'', [0])], ss_parameters = Some [[]],
                 ss_current_data = None\<rparr>,
      rendered = [SidebarHeader label_title, SidebarNumberInput label_run_id 1 1,
                  SidebarButton label_load, SidebarWrite label_available [[]],
                  SidebarRadio label_chart_type [label_line_chart, label_heatmap],
                  SidebarSelectbox label_x_axis [[]] 0, SidebarSelectbox label_y_axis [[]] 0],
      raised = None\<rparr>"
  by (simp add: qcodes_integration_def load_stage_def load_experiment_def press_load_def
      nameless_source_def nameless_dataset_def reset_index_def fresh_session_def and_then_def
      axis_picker_def radio_def selectbox_def line_chart_of_def plot_attempt_def
      show_current_data_def Let_def)

end
